theory Spec2Isabelle
  imports Complex_Main "HOL-Library.List_Lexorder" "HOL-Library.Char_ord"
    "HOL-Library.Multiset"
begin

section \<open>LogViewer: a shallow embedding of the log viewer and settings screens\<close>

text \<open>
  The repository is a React/TypeScript front end.  Each component keeps its state in
  hooks (\<open>useState\<close>, \<open>useLocalStorage\<close>); an event handler reads the state of the
  current render and calls setters.  A handler is embedded as a function from the
  component's state (a record of the hook values) to the state after the handler's
  setter calls.  Notifications raised through \<open>toast({...})\<close> are appended to a list
  kept in the state, so that "a notification is surfaced" is a fact about the state.

  JavaScript strings are embedded as \<open>string\<close>; a character stands for one UTF-16 code
  unit below 256.
\<close>

subsection \<open>Notifications and the values kept in local storage\<close>

record Toast =
  title :: string
  description :: string
  destructive :: bool

record Service =
  name :: string
  endpoint :: string

text \<open>The hooks backed by local storage, under the names of the state variables.\<close>

record Stored =
  services :: "Service list"
  primaryTimezone :: string
  pageSize :: int
  showLineNumbers :: bool
  dateFormat :: string
  timeFormat :: string
  openAIApiKey :: string
  toasts :: "Toast list"

definition toast :: "Toast \<Rightarrow> 'a Stored_scheme \<Rightarrow> 'a Stored_scheme" where
  "toast t st = st\<lparr>toasts := toasts st @ [t]\<rparr>"

definition DEFAULT_SERVICES :: "Service list" where
  "DEFAULT_SERVICES =
     [\<lparr>name = ''API Server'', endpoint = ''https://api.example.com/logs''\<rparr>,
      \<lparr>name = ''Web Server'', endpoint = ''https://web.example.com/logs''\<rparr>,
      \<lparr>name = ''Database'', endpoint = ''https://db.example.com/logs''\<rparr>]"

definition DEFAULT_PAGE_SIZE :: int where
  "DEFAULT_PAGE_SIZE = 10"

subsection \<open>The settings screen\<close>

record SettingsPage = Stored +
  newServiceName :: string
  newServiceEndpoint :: string

text \<open>
  \<open>addService\<close>: both inputs must be non-empty (an empty string is falsy) and the name
  must not be in use; otherwise a destructive notification is raised and the handler
  returns before \<open>setServices\<close>.
\<close>

definition addService :: "SettingsPage \<Rightarrow> SettingsPage" where
  "addService st =
     (if newServiceName st = [] \<or> newServiceEndpoint st = [] then
        toast \<lparr>title = ''Error'',
               description = ''Please provide both a name and endpoint for the new service.'',
               destructive = True\<rparr> st
      else if list_ex (\<lambda>s. name s = newServiceName st) (services st) then
        toast \<lparr>title = ''Error'',
               description = ''A service with this name already exists.'',
               destructive = True\<rparr> st
      else
        toast \<lparr>title = ''Success'', description = ''Service added successfully.'',
               destructive = False\<rparr>
          (st\<lparr>services := services st @
                  [\<lparr>name = newServiceName st, endpoint = newServiceEndpoint st\<rparr>],
               newServiceName := [],
               newServiceEndpoint := []\<rparr>))"

definition removeService :: "string \<Rightarrow> SettingsPage \<Rightarrow> SettingsPage" where
  "removeService n st =
     toast \<lparr>title = ''Success'', description = ''Service removed successfully.'',
            destructive = False\<rparr>
       (st\<lparr>services := filter (\<lambda>s. name s \<noteq> n) (services st)\<rparr>)"

text \<open>
  The \<open>onChange\<close> handler of the endpoint input rendered for the service named \<open>n\<close>,
  receiving the text \<open>v\<close>.
\<close>

definition editEndpoint :: "string \<Rightarrow> string \<Rightarrow> SettingsPage \<Rightarrow> SettingsPage" where
  "editEndpoint n v st =
     st\<lparr>services := map (\<lambda>s. if name s = n then s\<lparr>endpoint := v\<rparr> else s) (services st)\<rparr>"

text \<open>
  \<open>resetToDefaults\<close>.  \<open>detected\<close> is the value of
  \<open>Intl.DateTimeFormat().resolvedOptions().timeZone\<close>, supplied by the browser.
\<close>

definition resetToDefaults :: "string \<Rightarrow> SettingsPage \<Rightarrow> SettingsPage" where
  "resetToDefaults detected st =
     toast \<lparr>title = ''Success'', description = ''Settings reset to defaults.'',
            destructive = False\<rparr>
       (st\<lparr>services := DEFAULT_SERVICES,
            primaryTimezone := detected,
            pageSize := DEFAULT_PAGE_SIZE,
            showLineNumbers := True,
            dateFormat := ''yyyy-MM-dd'',
            timeFormat := ''HH:mm:ss''\<rparr>)"

text \<open>The invariant of the service list: names are pairwise distinct.\<close>

definition uniqueNames :: "Service list \<Rightarrow> bool" where
  "uniqueNames ss = distinct (map name ss)"

subsection \<open>Timezone labels\<close>

text \<open>
  \<open>rawTimeZones\<close> is the table exported by the tzdb package; it is a parameter here.
  Of an entry only \<open>name\<close> and \<open>alternativeName\<close> are read by the label function; both
  are strings in every entry, by the type the package declares.
\<close>

record RawTimeZone =
  tzName :: string
  alternativeName :: string

text \<open>
  \<open>new Map(rawTimeZones.map((z) => [z.name, z]))\<close>: the pairs are inserted in order, a
  later entry replacing an earlier one of the same name.
\<close>

definition TZ_RECORD :: "RawTimeZone list \<Rightarrow> string \<Rightarrow> RawTimeZone option" where
  "TZ_RECORD rawTimeZones = fold (\<lambda>z m. m(tzName z \<mapsto> z)) rawTimeZones Map.empty"

text \<open>\<open>tz.replace(/_/g, " ")\<close>: every underscore becomes a space.\<close>

fun replaceUnderscores :: "string \<Rightarrow> string" where
  "replaceUnderscores [] = []"
| "replaceUnderscores (c # cs) =
     (if c = CHR ''_'' then CHR '' '' else c) # replaceUnderscores cs"

definition getTimezoneLabel :: "RawTimeZone list \<Rightarrow> string \<Rightarrow> string" where
  "getTimezoneLabel rawTimeZones tz =
     (case TZ_RECORD rawTimeZones tz of
        Some z \<Rightarrow> alternativeName z
      | None \<Rightarrow> replaceUnderscores tz)"

subsection \<open>Dates\<close>

text \<open>
  A JavaScript \<open>Date\<close> holds a time value: the milliseconds since 1970-01-01T00:00Z, or
  NaN for the Invalid Date.  It is embedded as \<open>int option\<close>, \<open>None\<close> being the
  Invalid Date.  A time value is at most 8.64e15 in absolute value; \<open>TimeClip\<close> turns a
  number outside that range into NaN.  Local time is UTC shifted by the browser's zone
  offset, a parameter \<open>tz\<close> in minutes east of UTC (a fixed offset: no daylight-saving
  transitions).

  The calendar functions are those of the language runtime and of date-fns, not of this
  repository; they follow ECMAScript's \<open>Day\<close>, \<open>YearFromTime\<close>, \<open>MonthFromTime\<close>,
  \<open>DateFromTime\<close> and \<open>MakeDay\<close> on the proleptic Gregorian calendar.
\<close>

type_synonym Date = "int option"

definition msPerDay :: int where
  "msPerDay = 86400000"

definition msPerMinute :: int where
  "msPerMinute = 60000"



text \<open>Day number (days since 1970-01-01) to (year, month 1..12, day of month).\<close>

definition civilFromDays :: "int \<Rightarrow> int \<times> int \<times> int" where
  "civilFromDays z =
     (let z' = z + 719468;
          era = z' div 146097;
          doe = z' mod 146097;
          yoe = (doe - doe div 1460 + doe div 36524 - doe div 146096) div 365;
          doy = doe - (365 * yoe + yoe div 4 - yoe div 100);
          mp = (5 * doy + 2) div 153;
          d = doy - (153 * mp + 2) div 5 + 1;
          m = (if mp < 10 then mp + 3 else mp - 9);
          y = yoe + era * 400
      in (if m \<le> 2 then y + 1 else y, m, d))"

text \<open>(year, month 1..12, day of month) to the day number.\<close>

definition daysFromCivil :: "int \<Rightarrow> int \<Rightarrow> int \<Rightarrow> int" where
  "daysFromCivil y m d =
     (let y' = (if m \<le> 2 then y - 1 else y);
          era = y' div 400;
          yoe = y' mod 400;
          doy = (153 * (if m > 2 then m - 3 else m + 9) + 2) div 5 + d - 1;
          doe = yoe * 365 + yoe div 4 - yoe div 100 + doy
      in era * 146097 + doe - 719468)"

definition daysInMonth :: "int \<Rightarrow> int \<Rightarrow> int" where
  "daysInMonth y m =
     (if m = 2 then (if y mod 4 = 0 \<and> (y mod 100 \<noteq> 0 \<or> y mod 400 = 0) then 29 else 28)
      else if m = 4 \<or> m = 6 \<or> m = 9 \<or> m = 11 then 30 else 31)"

text \<open>\<open>LocalTime(t)\<close> and the local calendar fields \<open>getFullYear\<close>, \<open>getMonth() + 1\<close>, \<open>getDate\<close>.\<close>

definition localTime :: "int \<Rightarrow> int \<Rightarrow> int" where
  "localTime tz t = t + tz * msPerMinute"

definition localYMD :: "int \<Rightarrow> int \<Rightarrow> int \<times> int \<times> int" where
  "localYMD tz t = civilFromDays (localTime tz t div msPerDay)"

subsubsection \<open>Printing numbers\<close>

definition digitChar :: "nat \<Rightarrow> char" where
  "digitChar n = ''0123456789'' ! n"

fun decimal :: "nat \<Rightarrow> string" where
  "decimal n = (if n < 10 then [digitChar n] else decimal (n div 10) @ [digitChar (n mod 10)])"

declare decimal.simps [simp del]

text \<open>
  date-fns \<open>addLeadingZeros(number, targetLength)\<close>: the sign, then the absolute value
  padded with zeros on the left.
\<close>

definition addLeadingZeros :: "int \<Rightarrow> nat \<Rightarrow> string" where
  "addLeadingZeros n len =
     (let out = decimal (nat \<bar>n\<bar>)
      in (if n < 0 then ''-'' else []) @ replicate (len - length out) CHR ''0'' @ out)"

text \<open>
  date-fns \<open>format(date, "yyyy-MM-dd")\<close> on a valid date: the local calendar day; the
  token \<open>yyyy\<close> prints the year of the era (\<open>1 - year\<close> for a year below 1).
\<close>

definition format_yyyy_MM_dd :: "int \<Rightarrow> int \<Rightarrow> string" where
  "format_yyyy_MM_dd tz t =
     (case localYMD tz t of (y, m, d) \<Rightarrow>
        addLeadingZeros (if y > 0 then y else 1 - y) 4 @ ''-'' @
        addLeadingZeros m 2 @ ''-'' @ addLeadingZeros d 2)"

subsubsection \<open>Reading a date string\<close>

definition digitValue :: "char \<Rightarrow> int option" where
  "digitValue c =
     (let n = (of_char c :: nat) in if 48 \<le> n \<and> n \<le> 57 then Some (int n - 48) else None)"

fun number :: "int \<Rightarrow> string \<Rightarrow> int option" where
  "number acc [] = Some acc"
| "number acc (c # cs) =
     (case digitValue c of None \<Rightarrow> None | Some v \<Rightarrow> number (10 * acc + v) cs)"

text \<open>
  The date-only form \<open>YYYY-MM-DD\<close> of ECMAScript's date time string format, with a
  month and a day of that month: the year, month and day it names, or \<open>None\<close> for a
  string that is not of this form.
\<close>

definition isoDateOnly :: "string \<Rightarrow> (int \<times> int \<times> int) option" where
  "isoDateOnly s =
     (if length s = 10 \<and> s ! 4 = CHR ''-'' \<and> s ! 7 = CHR ''-'' then
        (case (number 0 (take 4 s), number 0 (take 2 (drop 5 s)), number 0 (drop 8 s)) of
           (Some y, Some m, Some d) \<Rightarrow>
             (if 1 \<le> m \<and> m \<le> 12 \<and> 1 \<le> d \<and> d \<le> daysInMonth y m
              then Some (y, m, d) else None)
         | _ \<Rightarrow> None)
      else None)"

text \<open>
  \<open>new Date(s)\<close> for a string.  A string of the date-only form denotes midnight UTC of
  its day.  How any other string is read differs between engines (further forms of the
  standard's format, and the heuristics the standard allows an engine to fall back to);
  that reading is the parameter \<open>otherFormats\<close>.
\<close>

definition newDate :: "(string \<Rightarrow> Date) \<Rightarrow> string \<Rightarrow> Date" where
  "newDate otherFormats s =
     (case isoDateOnly s of
        Some (y, m, d) \<Rightarrow> Some (daysFromCivil y m d * msPerDay)
      | None \<Rightarrow> otherFormats s)"

subsection \<open>The log viewer screen\<close>

text \<open>
  A log entry with the fields the table shows.  The optional fields are \<open>None\<close> when
  absent.  The interface's index signature (further fields of unknown type) is not
  embedded: nothing in the code modelled reads such a field by name.
\<close>

record LogEntry =
  id_field :: string
  timestamp :: string
  level :: string
  message :: string
  service :: "string option"
  user :: "string option"
  component :: "string option"
  action :: "string option"
  statusCode :: "string option"
  requestId :: "string option"

text \<open>
  A call to the completion service, recorded by its URL, its bearer token and the
  entry sent as context.
\<close>

record LlmRequest =
  url :: string
  bearer :: string
  context_entry :: LogEntry

record LogViewer = Stored +
  date :: Date
  selectedService :: string
  logs :: "LogEntry list"
  loading :: bool
  error :: "string option"
  selectedLog :: "LogEntry option"
  llmExplanation :: string
  llmLoading :: bool
  requests :: "LlmRequest list"

subsubsection \<open>Fetching logs\<close>



text \<open>
  A value caught by \<open>catch (err)\<close>: an \<open>Error\<close> object with its message, or any other
  value.
\<close>

datatype Thrown = ErrorObject string | OtherValue








subsubsection \<open>The explanation of an entry\<close>

text \<open>
  A value produced by \<open>res.json()\<close>.  An object is its list of (key, value) pairs, read
  by the first pair of a key.  The payload of a number is never read.
\<close>

datatype json =
    JNull
  | JBool bool
  | JNumber int
  | JString string
  | JArray "json list"
  | JObject "(string \<times> json) list"

text \<open>
  Reading a property of a value that is neither \<open>null\<close> nor \<open>undefined\<close>; \<open>None\<close> is
  \<open>undefined\<close>.  \<open>getProp\<close> covers the names read here (\<open>choices\<close>, \<open>message\<close>,
  \<open>content\<close>), which only an object can have; \<open>index0\<close> is \<open>[0]\<close>.
\<close>

definition getProp :: "string \<Rightarrow> json \<Rightarrow> json option" where
  "getProp k v = (case v of JObject kvs \<Rightarrow> map_of kvs k | _ \<Rightarrow> None)"

definition index0 :: "json \<Rightarrow> json option" where
  "index0 v =
     (case v of
        JArray xs \<Rightarrow> (case xs of [] \<Rightarrow> None | x # _ \<Rightarrow> Some x)
      | JObject kvs \<Rightarrow> map_of kvs ''0''
      | JString s \<Rightarrow> (case s of [] \<Rightarrow> None | c # _ \<Rightarrow> Some (JString [c]))
      | _ \<Rightarrow> None)"

text \<open>\<open>v?.f\<close>: \<open>undefined\<close> when \<open>v\<close> is \<open>null\<close> or \<open>undefined\<close>.\<close>

definition optChain :: "json option \<Rightarrow> (json \<Rightarrow> json option) \<Rightarrow> json option" where
  "optChain v f = (case v of None \<Rightarrow> None | Some JNull \<Rightarrow> None | Some x \<Rightarrow> f x)"

text \<open>
  \<open>String.prototype.trim\<close>: white space and line terminators are removed at both ends.
  Below 256 these are the code units 9 to 13, 32 and 160.
\<close>

definition isWhiteSpace :: "char \<Rightarrow> bool" where
  "isWhiteSpace c =
     (c \<in> set [CHR 0x09, CHR 0x0A, CHR 0x0B, CHR 0x0C, CHR 0x0D, CHR 0x20, CHR 0xA0])"

definition trim :: "string \<Rightarrow> string" where
  "trim s = rev (dropWhile isWhiteSpace (rev (dropWhile isWhiteSpace s)))"

text \<open>
  \<open>data.choices?.[0]?.message?.content\<close> for a \<open>data\<close> other than \<open>null\<close>, then
  \<open>data.choices?.[0]?.message?.content?.trim() || "No explanation"\<close>.  \<open>Inl\<close> is a
  \<open>TypeError\<close>: \<open>data\<close> is \<open>null\<close>, or the content is neither a string nor nullish and
  so has no \<open>trim\<close> method.
\<close>

definition completionContent :: "json \<Rightarrow> json option" where
  "completionContent data =
     optChain (optChain (optChain (getProp ''choices'' data) index0) (getProp ''message''))
       (getProp ''content'')"

definition completionText :: "json \<Rightarrow> Thrown + string" where
  "completionText data =
     (if data = JNull then Inl (ErrorObject ''TypeError'')
      else
        (case completionContent data of
           None \<Rightarrow> Inr ''No explanation''
         | Some JNull \<Rightarrow> Inr ''No explanation''
         | Some (JString s) \<Rightarrow> Inr (if trim s = [] then ''No explanation'' else trim s)
         | Some _ \<Rightarrow> Inl (ErrorObject ''TypeError'')))"

text \<open>
  The outcome of the call: \<open>fetch\<close> rejects (transport), \<open>res.json()\<close> rejects (the body
  is not JSON), or a value is parsed.
\<close>

datatype LlmResponse = FetchRejected | JsonRejected | Parsed json

definition llmBody :: "LlmResponse \<Rightarrow> Thrown + string" where
  "llmBody resp =
     (case resp of
        FetchRejected \<Rightarrow> Inl (ErrorObject ''fetch'')
      | JsonRejected \<Rightarrow> Inl (ErrorObject ''json'')
      | Parsed data \<Rightarrow> completionText data)"

definition viewWithLLM :: "LlmResponse \<Rightarrow> LogEntry \<Rightarrow> LogViewer \<Rightarrow> LogViewer" where
  "viewWithLLM resp entry st0 =
     (let st = st0\<lparr>selectedLog := Some entry\<rparr>
      in if openAIApiKey st0 = [] then
           toast \<lparr>title = ''Missing API Key'',
                  description = ''Add your OpenAI API key in Settings > LLM View'',
                  destructive = True\<rparr> st
         else
           (let st1 = st\<lparr>llmLoading := True, llmExplanation := [],
                        requests := requests st @
                          [\<lparr>url = ''https://api.openai.com/v1/chat/completions'',
                            bearer = openAIApiKey st0,
                            context_entry = entry\<rparr>]\<rparr>;
                st2 =
                  (case llmBody resp of
                     Inr text \<Rightarrow> st1\<lparr>llmExplanation := text\<rparr>
                   | Inl err \<Rightarrow>
                       toast \<lparr>title = ''Error'',
                              description = ''Failed to fetch explanation'',
                              destructive = True\<rparr> st1)
            in st2\<lparr>llmLoading := False\<rparr>))"

subsubsection \<open>The URL parameters\<close>

text \<open>
  \<open>searchParams\<close> is the map from parameter names to values.  The effect that runs when
  the date or the service changes sets \<open>date\<close> and \<open>service\<close> and navigates to the new
  query string; on the next load the component reads them back.  \<open>now\<close> is the value of
  \<open>new Date()\<close>, \<open>otherFormats\<close> the engine's reading of a string that is not a date-only
  string.  \<open>get\<close> yields \<open>null\<close> for an absent name, and \<open>||\<close> replaces \<open>null\<close> and
  the empty string by the default.
\<close>

type_synonym SearchParams = "string \<Rightarrow> string option"

definition orDefault :: "string option \<Rightarrow> string \<Rightarrow> string" where
  "orDefault v d = (case v of None \<Rightarrow> d | Some [] \<Rightarrow> d | Some s \<Rightarrow> s)"

definition updateURL :: "int \<Rightarrow> SearchParams \<Rightarrow> int \<Rightarrow> string \<Rightarrow> SearchParams" where
  "updateURL tz searchParams t sel =
     (searchParams(''date'' \<mapsto> format_yyyy_MM_dd tz t))(''service'' \<mapsto> sel)"

definition initialDate :: "(string \<Rightarrow> Date) \<Rightarrow> int \<Rightarrow> SearchParams \<Rightarrow> Date" where
  "initialDate otherFormats now searchParams =
     (let dateParam = orDefault (searchParams ''date'') ''today''
      in if dateParam = ''today'' then Some now else newDate otherFormats dateParam)"

definition serviceParam :: "SearchParams \<Rightarrow> string" where
  "serviceParam searchParams = orDefault (searchParams ''service'') ''API Server''"

subsection \<open>The log table\<close>

text \<open>
  The table component hands its rows and its state (sorting, column filters, global
  filter, pagination) to a table library.  The component's own code is embedded from
  the source: the columns, the header's sort button, the filter inputs, the page-size
  selector and the four navigation buttons with their \<open>disabled\<close> guards.  The library
  is a dependency and is not part of the repository's sources; what it computes is
  embedded from the specification, each such definition saying so.
\<close>

datatype Column =
    Col_id | Col_timestamp | Col_level | Col_message | Col_service | Col_user
  | Col_component | Col_action | Col_statusCode | Col_requestId

text \<open>\<open>row.getValue(columnId)\<close> through the column's \<open>accessorKey\<close>; \<open>None\<close> is \<open>undefined\<close>.\<close>

fun getValue :: "Column \<Rightarrow> LogEntry \<Rightarrow> string option" where
  "getValue Col_id r = Some (id_field r)"
| "getValue Col_timestamp r = Some (timestamp r)"
| "getValue Col_level r = Some (level r)"
| "getValue Col_message r = Some (message r)"
| "getValue Col_service r = service r"
| "getValue Col_user r = user r"
| "getValue Col_component r = component r"
| "getValue Col_action r = action r"
| "getValue Col_statusCode r = statusCode r"
| "getValue Col_requestId r = requestId r"

text \<open>The text of a cell: a value that is absent reads as the empty string.\<close>

definition cellText :: "Column \<Rightarrow> LogEntry \<Rightarrow> string" where
  "cellText c r = (case getValue c r of None \<Rightarrow> [] | Some v \<Rightarrow> v)"

definition allColumns :: "Column list" where
  "allColumns =
     [Col_id, Col_timestamp, Col_level, Col_message, Col_service, Col_user,
      Col_component, Col_action, Col_statusCode, Col_requestId]"

subsubsection \<open>Sorting\<close>

text \<open>The sorting state: a list of \<open>{id, desc}\<close> entries.\<close>

type_synonym SortingState = "(Column \<times> bool) list"

datatype SortDirection = Asc | Desc

text \<open>
  Modelled from the spec: the table library's \<open>column.getIsSorted()\<close> is not under
  \<open>src/\<close>.  It reads the "sort specification (column id + direction)" of the view
  state: \<open>false\<close> (here \<open>None\<close>) for a column that is not a sort key, else \<open>"asc"\<close> or
  \<open>"desc"\<close>.
\<close>

definition getIsSorted :: "Column \<Rightarrow> SortingState \<Rightarrow> SortDirection option" where
  "getIsSorted c sorting =
     (case find (\<lambda>e. fst e = c) sorting of
        None \<Rightarrow> None
      | Some e \<Rightarrow> Some (if snd e then Desc else Asc))"

text \<open>
  Modelled from the spec: the table library's \<open>column.toggleSorting(desc)\<close> is not under
  \<open>src/\<close>.  "Only one active sort key at a time (selecting a new column replaces the old
  one)": the column becomes the only sort key, in the direction the caller passes.
\<close>

definition toggleSorting :: "Column \<Rightarrow> bool \<Rightarrow> SortingState \<Rightarrow> SortingState" where
  "toggleSorting c desc sorting = [(c, desc)]"

text \<open>
  The header button of a column:
  \<open>onClick={() => column.toggleSorting(column.getIsSorted() === "asc")}\<close>.
\<close>

definition headerClick :: "Column \<Rightarrow> SortingState \<Rightarrow> SortingState" where
  "headerClick c sorting = toggleSorting c (getIsSorted c sorting = Some Asc) sorting"

text \<open>
  Modelled from the spec: the table library's sorted row model is not under \<open>src/\<close>.
  "Stable sort by the column's raw value": an insertion sort that puts a row before the
  first row it does not exceed, inserting the rows from the last to the first, so that
  rows of equal value keep their order.  \<open>key\<close> gives the value a column's rows are
  compared by, in any linear order.
\<close>

fun insertRow :: "('r \<Rightarrow> 'r \<Rightarrow> bool) \<Rightarrow> 'r \<Rightarrow> 'r list \<Rightarrow> 'r list" where
  "insertRow le x [] = [x]"
| "insertRow le x (y # ys) = (if le x y then x # y # ys else y # insertRow le x ys)"

text \<open>
  Modelled from the spec: the stable sort of the rows under the order \<open>le\<close>, by
  insertion from the last row to the first.
\<close>

definition stableSort :: "('r \<Rightarrow> 'r \<Rightarrow> bool) \<Rightarrow> 'r list \<Rightarrow> 'r list" where
  "stableSort le rows = foldr (insertRow le) rows []"

text \<open>
  Modelled from the spec: the order of the rows by their key, ascending, or descending
  when \<open>desc\<close> is set.
\<close>

definition rowLe :: "('r \<Rightarrow> 'k::linorder) \<Rightarrow> bool \<Rightarrow> 'r \<Rightarrow> 'r \<Rightarrow> bool" where
  "rowLe key desc a b = (if desc then key b \<le> key a else key a \<le> key b)"

text \<open>
  Modelled from the spec: the rows as the table shows them, sorted by the active sort
  key in its direction; with no sort key they keep the order of the data.
\<close>

definition getSortedRowModel ::
    "(Column \<Rightarrow> 'r \<Rightarrow> 'k::linorder) \<Rightarrow> SortingState \<Rightarrow> 'r list \<Rightarrow> 'r list" where
  "getSortedRowModel key sorting rows =
     (case sorting of
        [] \<Rightarrow> rows
      | e # _ \<Rightarrow> stableSort (rowLe (key (fst e)) (snd e)) rows)"

subsubsection \<open>Filtering\<close>

text \<open>
  \<open>toLowerCase\<close> on a code unit below 256: the letters A to Z, and the Latin-1 capitals
  192 to 222 except the multiplication sign 215, move up by 32.
\<close>

definition lowerChar :: "char \<Rightarrow> char" where
  "lowerChar c =
     (let n = (of_char c :: nat)
      in if (65 \<le> n \<and> n \<le> 90) \<or> (192 \<le> n \<and> n \<le> 222 \<and> n \<noteq> 215)
         then char_of (n + 32) else c)"

definition toLowerCase :: "string \<Rightarrow> string" where
  "toLowerCase s = map lowerChar s"

text \<open>\<open>hay.includes(needle)\<close>: \<open>needle\<close> occurs in \<open>hay\<close> as a contiguous substring.\<close>

fun includes_str :: "string \<Rightarrow> string \<Rightarrow> bool" where
  "includes_str [] needle = (needle = [])"
| "includes_str (c # cs) needle =
     (take (length needle) (c # cs) = needle \<or> includes_str cs needle)"

text \<open>
  Modelled from the spec: the table library's filter functions are not under \<open>src/\<close>.
  "Case-insensitive substring": the text occurs in the value, both in lower case.
\<close>

definition includesString :: "string \<Rightarrow> string \<Rightarrow> bool" where
  "includesString text v = includes_str (toLowerCase v) (toLowerCase text)"

text \<open>
  Modelled from the spec: the table library's column filter is not under \<open>src/\<close>.  "Same
  substring semantics, scoped to one field".  A field that is absent is read as the
  empty string.
\<close>

definition passesColumnFilter :: "Column \<times> string \<Rightarrow> LogEntry \<Rightarrow> bool" where
  "passesColumnFilter f r = includesString (snd f) (cellText (fst f) r)"

text \<open>
  Modelled from the spec: the table library's global filter is not under \<open>src/\<close>.  "Every
  row whose serialized form does not contain the text (case-insensitive substring) is
  excluded".  The serialized form of a row is taken to be its cell values, each
  searched on its own.
\<close>

definition passesGlobalFilter :: "string \<Rightarrow> LogEntry \<Rightarrow> bool" where
  "passesGlobalFilter text r =
     list_ex (\<lambda>c. includesString text (cellText c r)) allColumns"

text \<open>
  Modelled from the spec: the table library's filtered row model is not under \<open>src/\<close>.
  "Multiple column filters compose with logical AND"; the global filter is one more
  conjunct.  The rows keep their order.
\<close>

type_synonym ColumnFiltersState = "(Column \<times> string) list"

definition getFilteredRowModel ::
    "ColumnFiltersState \<Rightarrow> string \<Rightarrow> LogEntry list \<Rightarrow> LogEntry list" where
  "getFilteredRowModel columnFilters globalFilter rows =
     filter (\<lambda>r. list_all (\<lambda>f. passesColumnFilter f r) columnFilters
                 \<and> passesGlobalFilter globalFilter r) rows"

subsubsection \<open>Pagination\<close>

record Pagination =
  pageIndex :: int
  tablePageSize :: int

text \<open>The sizes offered by the selector under the table.\<close>

definition pageSizeOptions :: "int list" where
  "pageSizeOptions = [10, 20, 30, 40, 50]"

text \<open>\<open>Number(pageSize) || 10\<close>: zero is falsy.\<close>

definition tablePageSizeOf :: "int \<Rightarrow> int" where
  "tablePageSizeOf p = (if p = 0 then 10 else p)"

text \<open>
  Modelled from the spec: the table library's pagination is not under \<open>src/\<close>.
  "Page count is \<open>ceil(filteredRowCount / N)\<close>", in integer arithmetic.
\<close>

definition getPageCount :: "nat \<Rightarrow> Pagination \<Rightarrow> int" where
  "getPageCount rowCount p = - ((- int rowCount) div tablePageSize p)"

text \<open>
  Modelled from the spec: the table library's \<open>setPageIndex\<close> is not under \<open>src/\<close>.  "Page
  index clamps to \<open>[0, ceil(filteredCount / pageSize) - 1]\<close>".
\<close>

definition setPageIndex :: "nat \<Rightarrow> int \<Rightarrow> Pagination \<Rightarrow> Pagination" where
  "setPageIndex rowCount i p = p\<lparr>pageIndex := max 0 (min i (getPageCount rowCount p - 1))\<rparr>"

text \<open>
  Modelled from the spec: the table library's \<open>setPageSize\<close> is not under \<open>src/\<close>.
  "Changing page size to N recomputes page count ..., and the current page index clamps
  into range".
\<close>

definition setPageSize :: "nat \<Rightarrow> int \<Rightarrow> Pagination \<Rightarrow> Pagination" where
  "setPageSize rowCount n p =
     setPageIndex rowCount (pageIndex p) (p\<lparr>tablePageSize := n\<rparr>)"

text \<open>
  Modelled from the spec: the table library's \<open>previousPage\<close> is not under \<open>src/\<close>.  Page
  navigation "previous": one page back, clamped into the range.
\<close>

definition previousPage :: "nat \<Rightarrow> Pagination \<Rightarrow> Pagination" where
  "previousPage rowCount p = setPageIndex rowCount (pageIndex p - 1) p"

text \<open>
  Modelled from the spec: the table library's \<open>nextPage\<close> is not under \<open>src/\<close>.  Page
  navigation "next": one page forth, clamped into the range.
\<close>

definition nextPage :: "nat \<Rightarrow> Pagination \<Rightarrow> Pagination" where
  "nextPage rowCount p = setPageIndex rowCount (pageIndex p + 1) p"

text \<open>
  Modelled from the spec: the table library's \<open>getCanPreviousPage\<close> is not under \<open>src/\<close>.
  There is a previous page above the lower end 0 of the range.
\<close>

definition getCanPreviousPage :: "Pagination \<Rightarrow> bool" where
  "getCanPreviousPage p = (pageIndex p > 0)"

text \<open>
  Modelled from the spec: the table library's \<open>getCanNextPage\<close> is not under \<open>src/\<close>.
  There is a next page below the upper end \<open>pageCount - 1\<close> of the range.
\<close>

definition getCanNextPage :: "nat \<Rightarrow> Pagination \<Rightarrow> bool" where
  "getCanNextPage rowCount p = (pageIndex p < getPageCount rowCount p - 1)"

text \<open>
  The component's controls.  Choosing a size in the selector stores it; the effect then
  calls \<open>table.setPageSize(tablePageSize)\<close>.  A disabled button does nothing.
\<close>

definition selectPageSize :: "nat \<Rightarrow> int \<Rightarrow> Pagination \<Rightarrow> Pagination" where
  "selectPageSize rowCount n p = setPageSize rowCount (tablePageSizeOf n) p"

definition clickFirst :: "nat \<Rightarrow> Pagination \<Rightarrow> Pagination" where
  "clickFirst rowCount p = (if getCanPreviousPage p then setPageIndex rowCount 0 p else p)"

definition clickPrevious :: "nat \<Rightarrow> Pagination \<Rightarrow> Pagination" where
  "clickPrevious rowCount p = (if getCanPreviousPage p then previousPage rowCount p else p)"

definition clickNext :: "nat \<Rightarrow> Pagination \<Rightarrow> Pagination" where
  "clickNext rowCount p = (if getCanNextPage rowCount p then nextPage rowCount p else p)"

definition clickLast :: "nat \<Rightarrow> Pagination \<Rightarrow> Pagination" where
  "clickLast rowCount p =
     (if getCanNextPage rowCount p
      then setPageIndex rowCount (getPageCount rowCount p - 1) p else p)"

datatype Navigation = First | Previous | Next | Last

fun click :: "nat \<Rightarrow> Navigation \<Rightarrow> Pagination \<Rightarrow> Pagination" where
  "click rowCount First p = clickFirst rowCount p"
| "click rowCount Previous p = clickPrevious rowCount p"
| "click rowCount Next p = clickNext rowCount p"
| "click rowCount Last p = clickLast rowCount p"

text \<open>A run of clicks on the navigation buttons, in order.\<close>

definition clicks :: "nat \<Rightarrow> Navigation list \<Rightarrow> Pagination \<Rightarrow> Pagination" where
  "clicks rowCount bs p = foldl (\<lambda>q b. click rowCount b q) p bs"

text \<open>The page index is a page of the table: it lies in \<open>[0, pageCount - 1]\<close>.\<close>

definition pageInRange :: "nat \<Rightarrow> Pagination \<Rightarrow> bool" where
  "pageInRange rowCount p =
     (0 \<le> pageIndex p \<and> pageIndex p \<le> getPageCount rowCount p - 1)"

text \<open>
  What holds of the page index in every case: on an empty table it is 0, otherwise it
  is a page of the table.
\<close>

definition pageOk :: "nat \<Rightarrow> Pagination \<Rightarrow> bool" where
  "pageOk rowCount p = (if rowCount = 0 then pageIndex p = 0 else pageInRange rowCount p)"

subsection \<open>Example states\<close>

text \<open>Concrete states and tables at which the properties below are instantiated.\<close>

definition exSettings :: SettingsPage where
  "exSettings =
     \<lparr>services = DEFAULT_SERVICES, primaryTimezone = ''Asia/Karachi'', pageSize = 20,
      showLineNumbers = False, dateFormat = ''dd/MM/yyyy'', timeFormat = ''HH:mm'',
      openAIApiKey = ''sk-test'', toasts = [],
      newServiceName = ''Database'', newServiceEndpoint = ''https://db2.example.com/logs''\<rparr>"

definition exZones :: "RawTimeZone list" where
  "exZones =
     [\<lparr>tzName = ''Asia/Karachi'', alternativeName = ''Pakistan Time''\<rparr>,
      \<lparr>tzName = ''Europe/Berlin'', alternativeName = ''Central European Time''\<rparr>]"

definition exEntry :: LogEntry where
  "exEntry =
     \<lparr>id_field = ''log-7'', timestamp = ''2024-03-14T09:00:00.000Z'', level = ''ERROR'',
      message = ''disk full'', service = Some ''Database'', user = None, component = None,
      action = None, statusCode = Some ''500'', requestId = None\<rparr>"

definition exViewer :: LogViewer where
  "exViewer =
     \<lparr>services = DEFAULT_SERVICES, primaryTimezone = ''Asia/Karachi'', pageSize = 10,
      showLineNumbers = True, dateFormat = ''yyyy-MM-dd'', timeFormat = ''HH:mm:ss'',
      openAIApiKey = ''sk-test'', toasts = [],
      date = Some 1710478800000, selectedService = ''Database'', logs = [exEntry],
      loading = False, error = None, selectedLog = None, llmExplanation = ''earlier text'',
      llmLoading = False, requests = []\<rparr>"


text \<open>A response of the completion service whose text has a space on either side.\<close>

definition exCompletion :: json where
  "exCompletion =
     JObject [(''choices'',
       JArray [JObject [(''message'',
         JObject [(''role'', JString ''assistant''), (''content'', JString '' ok '')])]])]"

text \<open>Two rows of the same level and different ids.\<close>

definition exRows :: "LogEntry list" where
  "exRows =
     [\<lparr>id_field = ''1'', timestamp = ''2024-03-14T09:00:00.000Z'', level = ''INFO'',
       message = ''a'', service = None, user = None, component = None, action = None,
       statusCode = None, requestId = None\<rparr>,
      \<lparr>id_field = ''2'', timestamp = ''2024-03-14T09:00:01.000Z'', level = ''INFO'',
       message = ''b'', service = None, user = None, component = None, action = None,
       statusCode = None, requestId = None\<rparr>]"

text \<open>The pagination state the table starts with.\<close>

definition exPage :: Pagination where
  "exPage = \<lparr>pageIndex = 0, tablePageSize = 10\<rparr>"

section \<open>Properties of the settings screen\<close>

lemma toast_services [simp]: "services (toast t st) = services st"
  by (simp add: toast_def)

lemma toast_openAIApiKey [simp]: "openAIApiKey (toast t st) = openAIApiKey st"
  by (simp add: toast_def)

lemma uniqueNames_default: "uniqueNames DEFAULT_SERVICES"
  by (simp add: uniqueNames_def DEFAULT_SERVICES_def)

lemma uniqueNames_addService:
  assumes "uniqueNames (services st)"
  shows "uniqueNames (services (addService st))"
proof -
  have "newServiceName st \<notin> name ` set (services st)"
    if "\<not> list_ex (\<lambda>s. name s = newServiceName st) (services st)"
    using that by (auto simp: list_ex_iff)
  with assms show ?thesis
    by (auto simp: addService_def uniqueNames_def)
qed

lemma addService_rejects_existing:
  assumes "list_ex (\<lambda>s. name s = newServiceName st) (services st)"
  shows "services (addService st) = services st"
  using assms by (simp add: addService_def)

lemma uniqueNames_removeService:
  assumes "uniqueNames (services st)"
  shows "uniqueNames (services (removeService n st))"
  using assms by (simp add: removeService_def uniqueNames_def distinct_map_filter)

lemma names_editEndpoint:
  "map name (services (editEndpoint n v st)) = map name (services st)"
  by (simp add: editEndpoint_def comp_def if_distrib [of name] cong: if_cong)

lemma uniqueNames_editEndpoint:
  assumes "uniqueNames (services st)"
  shows "uniqueNames (services (editEndpoint n v st))"
  using assms by (simp add: uniqueNames_def names_editEndpoint)

text \<open>
  C9: pairwise distinct service names are an invariant of the settings screen.  The
  default list has them; from a list that has them, \<open>addService\<close> (which leaves the list
  as it is when the name is in use), \<open>removeService\<close> and the editing of an endpoint
  each give a list that has them.
\<close>

theorem service_names_stay_unique:
  assumes "uniqueNames (services st)"
  shows "uniqueNames DEFAULT_SERVICES
       \<and> uniqueNames (services (addService st))
       \<and> (list_ex (\<lambda>s. name s = newServiceName st) (services st)
            \<longrightarrow> services (addService st) = services st)
       \<and> uniqueNames (services (removeService n st))
       \<and> uniqueNames (services (editEndpoint n v st))"
  using assms
  by (simp add: uniqueNames_default uniqueNames_addService addService_rejects_existing
      uniqueNames_removeService uniqueNames_editEndpoint)

theorem service_names_stay_unique_witness:
  "uniqueNames (services exSettings)
   \<and> list_ex (\<lambda>s. name s = newServiceName exSettings) (services exSettings)
   \<and> services (addService exSettings) = DEFAULT_SERVICES
   \<and> uniqueNames (services (addService exSettings))
   \<and> uniqueNames (services (removeService ''Web Server'' exSettings))
   \<and> uniqueNames (services (editEndpoint ''Web Server'' ''https://w.example.com'' exSettings))"
proof -
  have u: "uniqueNames (services exSettings)"
    by (simp add: exSettings_def uniqueNames_default)
  have d: "list_ex (\<lambda>s. name s = newServiceName exSettings) (services exSettings)"
    by (simp add: exSettings_def DEFAULT_SERVICES_def)
  have s: "services exSettings = DEFAULT_SERVICES"
    by (simp add: exSettings_def)
  show ?thesis
    using u d s service_names_stay_unique [OF u, of "''Web Server''" "''https://w.example.com''"]
    by simp
qed

text \<open>
  C10: \<open>resetToDefaults\<close> puts the services, the primary timezone, the page size, the
  line-number switch, the date format and the time format back to their defaults, and
  leaves the stored OpenAI API key as it was.
\<close>

theorem resetToDefaults_keeps_api_key:
  "services (resetToDefaults detected st) = DEFAULT_SERVICES
   \<and> primaryTimezone (resetToDefaults detected st) = detected
   \<and> pageSize (resetToDefaults detected st) = DEFAULT_PAGE_SIZE
   \<and> showLineNumbers (resetToDefaults detected st) = True
   \<and> dateFormat (resetToDefaults detected st) = ''yyyy-MM-dd''
   \<and> timeFormat (resetToDefaults detected st) = ''HH:mm:ss''
   \<and> openAIApiKey (resetToDefaults detected st) = openAIApiKey st"
  by (simp add: resetToDefaults_def toast_def)

section \<open>Properties of the timezone label\<close>

lemma TZ_RECORD_snoc:
  "TZ_RECORD (zs @ [z]) = (TZ_RECORD zs)(tzName z \<mapsto> z)"
  by (simp add: TZ_RECORD_def)

lemma TZ_RECORD_Nil: "TZ_RECORD [] = Map.empty"
  by (simp add: TZ_RECORD_def)

lemma TZ_RECORD_Some:
  "TZ_RECORD zs tz = Some z \<Longrightarrow> z \<in> set zs \<and> tzName z = tz"
  by (induction zs rule: rev_induct) (auto simp: TZ_RECORD_snoc TZ_RECORD_Nil split: if_splits)

lemma dom_TZ_RECORD: "dom (TZ_RECORD zs) = tzName ` set zs"
proof (induction zs rule: rev_induct)
  case Nil
  show ?case by (simp add: TZ_RECORD_Nil)
next
  case (snoc z zs)
  have "dom (TZ_RECORD (zs @ [z])) = insert (tzName z) (dom (TZ_RECORD zs))"
    unfolding TZ_RECORD_snoc by simp
  with snoc show ?case by simp
qed

lemma replaceUnderscores_map:
  "replaceUnderscores s = map (\<lambda>c. if c = CHR ''_'' then CHR '' '' else c) s"
  by (induction s) auto

text \<open>
  C7: for a timezone identifier that is a key of the lookup map (the name of an entry of
  the table), the label is the alternative name of the entry the map holds for it;
  for any other identifier it is the identifier with every underscore replaced by a
  space.  The function is total: it has no failing case.
\<close>

theorem getTimezoneLabel_lookup_or_fallback:
  "(tz \<in> tzName ` set raw \<longrightarrow>
      (\<exists>z. z \<in> set raw \<and> tzName z = tz \<and> TZ_RECORD raw tz = Some z
           \<and> getTimezoneLabel raw tz = alternativeName z))
   \<and> (tz \<notin> tzName ` set raw \<longrightarrow>
      getTimezoneLabel raw tz = map (\<lambda>c. if c = CHR ''_'' then CHR '' '' else c) tz)"
proof (intro conjI impI)
  assume "tz \<in> tzName ` set raw"
  then have "tz \<in> dom (TZ_RECORD raw)"
    by (simp add: dom_TZ_RECORD)
  then obtain z where z: "TZ_RECORD raw tz = Some z"
    by blast
  with TZ_RECORD_Some [OF z]
  show "\<exists>z. z \<in> set raw \<and> tzName z = tz \<and> TZ_RECORD raw tz = Some z
           \<and> getTimezoneLabel raw tz = alternativeName z"
    by (simp add: getTimezoneLabel_def)
next
  assume "tz \<notin> tzName ` set raw"
  then have "TZ_RECORD raw tz = None"
    using dom_TZ_RECORD [of raw] by blast
  then show "getTimezoneLabel raw tz = map (\<lambda>c. if c = CHR ''_'' then CHR '' '' else c) tz"
    by (simp add: getTimezoneLabel_def replaceUnderscores_map)
qed

theorem getTimezoneLabel_lookup_or_fallback_witness:
  "''Asia/Karachi'' \<in> tzName ` set exZones
   \<and> getTimezoneLabel exZones ''Asia/Karachi'' = ''Pakistan Time''
   \<and> ''America/New_York'' \<notin> tzName ` set exZones
   \<and> getTimezoneLabel exZones ''America/New_York'' = ''America/New York''"
  using getTimezoneLabel_lookup_or_fallback [of "''Asia/Karachi''" exZones]
    getTimezoneLabel_lookup_or_fallback [of "''America/New_York''" exZones]
  by (auto simp: exZones_def TZ_RECORD_def)

section \<open>Properties of the log viewer screen\<close>






text \<open>
  C2: with an empty credential, \<open>viewWithLLM\<close> issues no request, raises the
  missing-credential notification, and changes neither the explanation text nor the
  loading flag, whatever the entry and whatever the service would have answered.
\<close>

theorem viewWithLLM_missing_key:
  assumes "openAIApiKey st = []"
  shows "requests (viewWithLLM resp entry st) = requests st
       \<and> toasts (viewWithLLM resp entry st)
           = toasts st @ [\<lparr>title = ''Missing API Key'',
                           description = ''Add your OpenAI API key in Settings > LLM View'',
                           destructive = True\<rparr>]
       \<and> llmExplanation (viewWithLLM resp entry st) = llmExplanation st
       \<and> llmLoading (viewWithLLM resp entry st) = llmLoading st"
  using assms by (simp add: viewWithLLM_def toast_def Let_def)

theorem viewWithLLM_missing_key_witness:
  "openAIApiKey (exViewer\<lparr>openAIApiKey := []\<rparr>) = []
   \<and> requests (viewWithLLM (Parsed exCompletion) exEntry (exViewer\<lparr>openAIApiKey := []\<rparr>)) = []
   \<and> llmExplanation (viewWithLLM (Parsed exCompletion) exEntry (exViewer\<lparr>openAIApiKey := []\<rparr>))
       = ''earlier text''
   \<and> llmLoading (viewWithLLM (Parsed exCompletion) exEntry (exViewer\<lparr>openAIApiKey := []\<rparr>))
       = False"
proof -
  have k: "openAIApiKey (exViewer\<lparr>openAIApiKey := []\<rparr>) = []"
    by simp
  show ?thesis
    using k viewWithLLM_missing_key [OF k, of "Parsed exCompletion" exEntry]
    by (simp add: exViewer_def)
qed

text \<open>
  C3, as the code has it: with a credential, when the call fails in transport or in
  parsing the body, the generic failure notification is raised and the explanation is
  the empty string; when a body is parsed whose completion content is a string, the
  explanation is that string with the white space at both ends removed, or
  \<open>No explanation\<close> when nothing remains, and no notification is raised.  In every
  case the loading flag ends cleared.
\<close>

theorem viewWithLLM_outcomes:
  assumes "openAIApiKey st \<noteq> []"
  shows "(resp = FetchRejected \<or> resp = JsonRejected \<longrightarrow>
            llmExplanation (viewWithLLM resp entry st) = []
          \<and> toasts (viewWithLLM resp entry st)
              = toasts st @ [\<lparr>title = ''Error'', description = ''Failed to fetch explanation'',
                              destructive = True\<rparr>])
       \<and> (resp = Parsed data \<and> data \<noteq> JNull \<and> completionContent data = Some (JString s) \<longrightarrow>
            llmExplanation (viewWithLLM resp entry st)
              = (if trim s = [] then ''No explanation'' else trim s)
          \<and> toasts (viewWithLLM resp entry st) = toasts st)
       \<and> llmLoading (viewWithLLM resp entry st) = False"
  using assms
  by (auto simp: viewWithLLM_def llmBody_def completionText_def toast_def Let_def
      split: sum.splits)

theorem viewWithLLM_outcomes_witness:
  "openAIApiKey exViewer \<noteq> []
   \<and> llmExplanation (viewWithLLM FetchRejected exEntry exViewer) = []
   \<and> exCompletion \<noteq> JNull
   \<and> completionContent exCompletion = Some (JString '' ok '')
   \<and> llmExplanation (viewWithLLM (Parsed exCompletion) exEntry exViewer) = ''ok''
   \<and> toasts (viewWithLLM (Parsed exCompletion) exEntry exViewer) = []"
proof -
  have k: "openAIApiKey exViewer \<noteq> []"
    by (simp add: exViewer_def)
  have n: "exCompletion \<noteq> JNull"
    by (simp add: exCompletion_def)
  have c: "completionContent exCompletion = Some (JString '' ok '')"
    by (simp add: completionContent_def exCompletion_def optChain_def getProp_def index0_def)
  have t: "trim '' ok '' = ''ok''"
    by (simp add: trim_def isWhiteSpace_def)
  have e: "toasts exViewer = []"
    by (simp add: exViewer_def)
  show ?thesis
    using k n c t e
      viewWithLLM_outcomes [OF k, of FetchRejected exEntry exCompletion "'' ok ''"]
      viewWithLLM_outcomes [OF k, of "Parsed exCompletion" exEntry exCompletion "'' ok ''"]
    by simp
qed

text \<open>
  C3 as stated fails: a completion text with a space on either side is shown without
  them, so not verbatim.
\<close>

theorem viewWithLLM_not_verbatim:
  "openAIApiKey exViewer \<noteq> []
   \<and> completionContent exCompletion = Some (JString '' ok '')
   \<and> llmExplanation (viewWithLLM (Parsed exCompletion) exEntry exViewer) = ''ok''
   \<and> llmExplanation (viewWithLLM (Parsed exCompletion) exEntry exViewer) \<noteq> '' ok ''"
  by (simp add: viewWithLLM_def llmBody_def completionText_def completionContent_def
      exCompletion_def exViewer_def optChain_def getProp_def index0_def trim_def
      isWhiteSpace_def Let_def)

text \<open>
  C4 at a browser five hours west of UTC: the selected date is midnight of 15 March 2024
  local time and is written to the URL as \<open>2024-03-15\<close>; read back, that string is
  midnight UTC, which in local time is the evening of 14 March, so the date shown after
  the reload is \<open>2024-03-14\<close>.  The service name comes back unchanged.
\<close>

theorem url_date_shifts_west_of_utc:
  "format_yyyy_MM_dd (- 300) 1710478800000 = ''2024-03-15''
   \<and> initialDate otherFormats 0 (updateURL (- 300) Map.empty 1710478800000 ''Database'')
       = Some 1710460800000
   \<and> format_yyyy_MM_dd (- 300) 1710460800000 = ''2024-03-14''
   \<and> serviceParam (updateURL (- 300) Map.empty 1710478800000 ''Database'') = ''Database''"
  by code_simp

section \<open>Properties of the log table\<close>

subsection \<open>Sorting\<close>

lemma set_insertRow: "set (insertRow le x xs) = insert x (set xs)"
  by (induction xs) auto

lemma stableSort_Nil: "stableSort le [] = []"
  by (simp add: stableSort_def)

lemma stableSort_Cons: "stableSort le (x # xs) = insertRow le x (stableSort le xs)"
  by (simp add: stableSort_def)

lemma set_stableSort: "set (stableSort le xs) = set xs"
  by (induction xs) (simp_all add: stableSort_Nil stableSort_Cons set_insertRow)

lemma mset_insertRow: "mset (insertRow le x xs) = add_mset x (mset xs)"
  by (induction xs) auto

lemma mset_stableSort: "mset (stableSort le xs) = mset xs"
  by (induction xs) (simp_all add: stableSort_Nil stableSort_Cons mset_insertRow)

lemma sorted_insertRow_rowLe:
  "sorted_wrt (rowLe key desc) xs \<Longrightarrow>
   sorted_wrt (rowLe key desc) (insertRow (rowLe key desc) x xs)"
proof (induction xs)
  case Nil
  show ?case by simp
next
  case (Cons y ys)
  show ?case
  proof (cases "rowLe key desc x y")
    case True
    have "rowLe key desc x z" if "z \<in> set ys" for z
    proof -
      from Cons.prems that have "rowLe key desc y z" by simp
      with True show ?thesis by (auto simp: rowLe_def split: if_splits)
    qed
    with True Cons.prems show ?thesis by simp
  next
    case False
    then have "rowLe key desc y x" by (auto simp: rowLe_def split: if_splits)
    with False Cons show ?thesis by (auto simp: set_insertRow)
  qed
qed

lemma sorted_stableSort_rowLe:
  "sorted_wrt (rowLe key desc) (stableSort (rowLe key desc) xs)"
  by (induction xs) (simp_all add: stableSort_Nil stableSort_Cons sorted_insertRow_rowLe)

lemma distinct_map_insertRow:
  "distinct (map key (insertRow le x xs)) = (key x \<notin> key ` set xs \<and> distinct (map key xs))"
  by (induction xs) (auto simp: set_insertRow)

lemma distinct_map_stableSort:
  "distinct (map key (stableSort le xs)) = distinct (map key xs)"
  by (induction xs)
    (simp_all add: stableSort_Nil stableSort_Cons distinct_map_insertRow set_stableSort)

text \<open>Stability: a new row goes in front of the rows of its own key.\<close>

lemma filter_insertRow_rowLe:
  "filter (\<lambda>r. key r = k) (insertRow (rowLe key desc) x xs)
     = (if key x = k then x # filter (\<lambda>r. key r = k) xs else filter (\<lambda>r. key r = k) xs)"
  by (induction xs) (auto simp: rowLe_def)

lemma filter_stableSort_rowLe:
  "filter (\<lambda>r. key r = k) (stableSort (rowLe key desc) xs) = filter (\<lambda>r. key r = k) xs"
  by (induction xs) (simp_all add: stableSort_Nil stableSort_Cons filter_insertRow_rowLe)

lemma rowLe_ascending: "rowLe key False = (\<lambda>a b. key a \<le> key b)"
  by (simp add: fun_eq_iff rowLe_def)

lemma rowLe_descending: "rowLe key True = (\<lambda>a b. key b \<le> key a)"
  by (simp add: fun_eq_iff rowLe_def)

text \<open>
  With pairwise distinct keys both orders are determined by the keys alone: the keys of
  the ascending order and of the reversed descending order are sorted lists of the same
  distinct elements, hence equal, and the key is injective on the rows.
\<close>

lemma descending_rev_ascending:
  assumes "distinct (map key xs)"
  shows "stableSort (rowLe key True) xs = rev (stableSort (rowLe key False) xs)"
proof -
  let ?A = "stableSort (rowLe key False) xs"
  let ?D = "stableSort (rowLe key True) xs"
  have "sorted_wrt (\<lambda>a b. key a \<le> key b) ?A"
    using sorted_stableSort_rowLe [of key False xs] by (simp add: rowLe_ascending)
  then have sA: "sorted (map key ?A)"
    by (simp add: sorted_map)
  have "sorted_wrt (\<lambda>a b. key b \<le> key a) ?D"
    using sorted_stableSort_rowLe [of key True xs] by (simp add: rowLe_descending)
  then have sD: "sorted (map key (rev ?D))"
    by (simp add: sorted_map sorted_wrt_rev)
  have dA: "distinct (map key ?A)"
    using assms by (simp add: distinct_map_stableSort)
  have dD: "distinct (map key (rev ?D))"
    using assms by (simp add: distinct_map_stableSort rev_map [symmetric] del: rev_map)
  have "set (map key ?A) = set (map key (rev ?D))"
    by (simp add: set_stableSort)
  with sA dA sD dD have eq: "map key ?A = map key (rev ?D)"
    by (rule sorted_distinct_set_unique)
  have "inj_on key (set xs)"
    using assms by (simp add: distinct_map)
  then have "inj_on key (set ?A \<union> set (rev ?D))"
    by (simp add: set_stableSort)
  with eq have "?A = rev ?D"
    by (simp add: inj_on_map_eq_map)
  then show ?thesis
    by (simp add: rev_swap)
qed

lemma headerClick_unsorted: "headerClick c [] = [(c, False)]"
  by (simp add: headerClick_def toggleSorting_def getIsSorted_def)

lemma headerClick_ascending: "headerClick c [(c, False)] = [(c, True)]"
  by (simp add: headerClick_def toggleSorting_def getIsSorted_def)

lemma sorted_ascending:
  "sorted_wrt (\<lambda>a b. key a \<le> key b) (stableSort (rowLe key False) xs)"
  using sorted_stableSort_rowLe [of key False xs] by (simp add: rowLe_ascending)

lemma sorted_descending:
  "sorted_wrt (\<lambda>a b. key b \<le> key a) (stableSort (rowLe key True) xs)"
  using sorted_stableSort_rowLe [of key True xs] by (simp add: rowLe_descending)

text \<open>
  C5, amended: a first click on a column's header sorts ascending by that column and a
  second click sorts descending: the rows shown are the rows of the list of logs, each
  as often as there, in an order in which the keys never decrease, respectively never
  increase.  Both sorts are stable: in either direction the rows of one key keep the
  order they have in the list of logs.  When the keys of the rows are pairwise distinct,
  the descending order is exactly the reverse of the ascending order.
\<close>

theorem descending_reverses_ascending_without_ties:
  "headerClick c [] = [(c, False)]
   \<and> headerClick c (headerClick c []) = [(c, True)]
   \<and> mset (getSortedRowModel key (headerClick c []) rows) = mset rows
   \<and> sorted_wrt (\<lambda>a b. key c a \<le> key c b) (getSortedRowModel key (headerClick c []) rows)
   \<and> mset (getSortedRowModel key (headerClick c (headerClick c [])) rows) = mset rows
   \<and> sorted_wrt (\<lambda>a b. key c b \<le> key c a)
        (getSortedRowModel key (headerClick c (headerClick c [])) rows)
   \<and> filter (\<lambda>r. key c r = k) (getSortedRowModel key (headerClick c []) rows)
       = filter (\<lambda>r. key c r = k) rows
   \<and> filter (\<lambda>r. key c r = k) (getSortedRowModel key (headerClick c (headerClick c [])) rows)
       = filter (\<lambda>r. key c r = k) rows
   \<and> (distinct (map (key c) rows) \<longrightarrow>
        getSortedRowModel key (headerClick c (headerClick c [])) rows
          = rev (getSortedRowModel key (headerClick c []) rows))"
  by (simp add: headerClick_unsorted headerClick_ascending getSortedRowModel_def
      descending_rev_ascending filter_stableSort_rowLe mset_stableSort
      sorted_ascending sorted_descending)

theorem descending_reverses_ascending_witness:
  "distinct (map (cellText Col_id) exRows)
   \<and> getSortedRowModel cellText (headerClick Col_id (headerClick Col_id [])) exRows = rev exRows
   \<and> getSortedRowModel cellText (headerClick Col_id []) exRows = exRows"
proof -
  have d: "distinct (map (cellText Col_id) exRows)"
    by (simp add: exRows_def cellText_def)
  have a: "getSortedRowModel cellText (headerClick Col_id []) exRows = exRows"
    by (simp add: headerClick_unsorted getSortedRowModel_def
        stableSort_def rowLe_def cellText_def exRows_def)
  have "getSortedRowModel cellText (headerClick Col_id (headerClick Col_id [])) exRows
          = rev (getSortedRowModel cellText (headerClick Col_id []) exRows)"
    using descending_reverses_ascending_without_ties
        [where c = Col_id and key = cellText and rows = exRows] d
    by blast
  with d a show ?thesis
    by simp
qed

text \<open>
  C5 as stated fails on ties: two rows of the same level come out in the same order,
  that of the list of logs, ascending and descending; the descending order is not the
  reverse of the ascending one.
\<close>

theorem descending_not_reverse_on_ties:
  "getSortedRowModel cellText (headerClick Col_level []) exRows = exRows
   \<and> getSortedRowModel cellText (headerClick Col_level (headerClick Col_level [])) exRows = exRows
   \<and> getSortedRowModel cellText (headerClick Col_level (headerClick Col_level [])) exRows
       \<noteq> rev (getSortedRowModel cellText (headerClick Col_level []) exRows)"
  by (simp add: headerClick_unsorted headerClick_ascending getSortedRowModel_def
      stableSort_def rowLe_def cellText_def exRows_def)

subsection \<open>Filtering\<close>

text \<open>\<open>includes_str\<close> is the substring test.\<close>

lemma includes_str_iff:
  "includes_str hay needle \<longleftrightarrow> (\<exists>pre suf. hay = pre @ needle @ suf)"
proof (induction hay)
  case Nil
  show ?case by auto
next
  case (Cons c cs)
  show ?case
  proof
    assume "includes_str (c # cs) needle"
    then consider "take (length needle) (c # cs) = needle" | "includes_str cs needle"
      by auto
    then show "\<exists>pre suf. c # cs = pre @ needle @ suf"
    proof cases
      case 1
      then have "c # cs = [] @ needle @ drop (length needle) (c # cs)"
        by (metis append_Nil append_take_drop_id)
      then show ?thesis by blast
    next
      case 2
      with Cons.IH obtain pre suf where "cs = pre @ needle @ suf" by blast
      then have "c # cs = (c # pre) @ needle @ suf" by simp
      then show ?thesis by blast
    qed
  next
    assume "\<exists>pre suf. c # cs = pre @ needle @ suf"
    then obtain pre suf where e: "c # cs = pre @ needle @ suf" by blast
    show "includes_str (c # cs) needle"
    proof (cases pre)
      case Nil
      with e have "take (length needle) (c # cs) = needle" by simp
      then show ?thesis by simp
    next
      case tl: (Cons a pre')
      with e have "cs = pre' @ needle @ suf" by simp
      with Cons.IH have "includes_str cs needle" by blast
      then show ?thesis by simp
    qed
  qed
qed

lemma includes_str_empty: "includes_str hay [] = True"
  by (cases hay) simp_all

lemma passesGlobalFilter_empty: "passesGlobalFilter [] r = True"
  by (simp add: passesGlobalFilter_def includesString_def toLowerCase_def includes_str_empty
      allColumns_def)

lemma filtered_single_column:
  "set (getFilteredRowModel [(c, query)] globalFilter rows)
     = {r \<in> set rows. includesString query (cellText c r)}
       \<inter> {r \<in> set rows. passesGlobalFilter globalFilter r}"
  by (auto simp: getFilteredRowModel_def passesColumnFilter_def)

lemma filtered_intersection:
  "set (getFilteredRowModel columnFilters globalFilter rows)
     = set (getFilteredRowModel columnFilters [] rows)
       \<inter> set (getFilteredRowModel [] globalFilter rows)"
  by (auto simp: getFilteredRowModel_def passesGlobalFilter_empty)

lemma filtered_global_then_columns:
  "getFilteredRowModel columnFilters [] (getFilteredRowModel [] globalFilter rows)
     = getFilteredRowModel columnFilters globalFilter rows"
  by (simp add: getFilteredRowModel_def passesGlobalFilter_empty conj_commute)

lemma filtered_columns_then_global:
  "getFilteredRowModel [] globalFilter (getFilteredRowModel columnFilters [] rows)
     = getFilteredRowModel columnFilters globalFilter rows"
  by (simp add: getFilteredRowModel_def passesGlobalFilter_empty conj_commute)

text \<open>
  C6: the rows that pass a column filter and the global filter together are the rows
  that pass the column's substring predicate, intersected with the rows that pass the
  global substring predicate.  The same holds for any list of column filters against
  the global filter, and filtering by the one and then by the other gives the same rows
  in either order of application.
\<close>

theorem filters_compose_as_intersection:
  "set (getFilteredRowModel [(c, query)] globalFilter rows)
     = {r \<in> set rows. includesString query (cellText c r)}
       \<inter> {r \<in> set rows. passesGlobalFilter globalFilter r}
   \<and> set (getFilteredRowModel columnFilters globalFilter rows)
     = set (getFilteredRowModel columnFilters [] rows)
       \<inter> set (getFilteredRowModel [] globalFilter rows)
   \<and> getFilteredRowModel columnFilters [] (getFilteredRowModel [] globalFilter rows)
     = getFilteredRowModel columnFilters globalFilter rows
   \<and> getFilteredRowModel [] globalFilter (getFilteredRowModel columnFilters [] rows)
     = getFilteredRowModel columnFilters globalFilter rows"
  using filtered_single_column [of c query globalFilter rows]
    filtered_intersection [of columnFilters globalFilter rows]
    filtered_global_then_columns [of columnFilters globalFilter rows]
    filtered_columns_then_global [of globalFilter columnFilters rows]
  by blast

subsection \<open>Pagination\<close>

lemma pageSizeOptions_pos: "n \<in> set pageSizeOptions \<Longrightarrow> 0 < n"
  by (auto simp: pageSizeOptions_def)

lemma tablePageSizeOf_option: "n \<in> set pageSizeOptions \<Longrightarrow> tablePageSizeOf n = n"
  by (auto simp: pageSizeOptions_def tablePageSizeOf_def)

text \<open>The integer expression of the page count is the ceiling of the quotient.\<close>

lemma getPageCount_ceiling:
  "getPageCount rowCount p = \<lceil>real rowCount / real_of_int (tablePageSize p)\<rceil>"
  using ceiling_divide_eq_div [where ?'a = real, of "int rowCount" "tablePageSize p"]
  by (simp add: getPageCount_def)

lemma getPageCount_pos:
  assumes "0 < tablePageSize p" and "0 < rowCount"
  shows "1 \<le> getPageCount rowCount p"
proof -
  have "(- int rowCount) div tablePageSize p < 0"
    using assms by (simp add: pos_imp_zdiv_neg_iff)
  then show ?thesis
    by (simp add: getPageCount_def)
qed

lemma getPageCount_zero: "getPageCount 0 p = 0"
  by (simp add: getPageCount_def)

lemma setPageIndex_ok:
  assumes "0 < tablePageSize p"
  shows "pageOk rowCount (setPageIndex rowCount i p)"
proof (cases "rowCount = 0")
  case True
  then show ?thesis
    by (simp add: pageOk_def setPageIndex_def getPageCount_zero)
next
  case False
  with assms have "1 \<le> getPageCount rowCount p"
    by (simp add: getPageCount_pos)
  moreover have "getPageCount rowCount (setPageIndex rowCount i p) = getPageCount rowCount p"
    by (simp add: getPageCount_def setPageIndex_def)
  ultimately show ?thesis
    using False by (simp add: pageOk_def pageInRange_def setPageIndex_def)
qed

lemma tablePageSize_setPageIndex [simp]:
  "tablePageSize (setPageIndex rowCount i p) = tablePageSize p"
  by (simp add: setPageIndex_def)

lemma click_ok:
  assumes "0 < tablePageSize p" and "pageOk rowCount p"
  shows "pageOk rowCount (click rowCount b p)
       \<and> tablePageSize (click rowCount b p) = tablePageSize p"
  using assms
  by (cases b)
    (simp_all add: clickFirst_def clickPrevious_def clickNext_def clickLast_def
      previousPage_def nextPage_def setPageIndex_ok)

lemma clicks_ok:
  assumes "0 < tablePageSize p" and "pageOk rowCount p"
  shows "pageOk rowCount (clicks rowCount bs p)
       \<and> tablePageSize (clicks rowCount bs p) = tablePageSize p"
  using assms
proof (induction bs arbitrary: p)
  case Nil
  then show ?case by (simp add: clicks_def)
next
  case (Cons b bs)
  from click_ok [OF Cons.prems, of b]
  have "pageOk rowCount (click rowCount b p)"
    and "tablePageSize (click rowCount b p) = tablePageSize p"
    by simp_all
  with Cons.IH [of "click rowCount b p"] Cons.prems show ?case
    by (simp add: clicks_def)
qed

lemma selectPageSize_ok:
  assumes "n \<in> set pageSizeOptions"
  shows "pageOk rowCount (selectPageSize rowCount n p)
       \<and> tablePageSize (selectPageSize rowCount n p) = n"
  using assms pageSizeOptions_pos [OF assms]
  by (simp add: selectPageSize_def setPageSize_def tablePageSizeOf_option setPageIndex_ok)

text \<open>
  C8, amended: for every filtered row count and every page size \<open>n\<close> of the selector,
  after the size is chosen and after any run of clicks on the first, previous, next and
  last buttons, the page count is \<open>ceil(rowCount / n)\<close>; when there is at least one row
  the page index lies in \<open>[0, ceil(rowCount / n) - 1]\<close>, and when there is none the page
  count is 0 and the page index is 0.
\<close>

theorem page_index_stays_in_range:
  assumes "n \<in> set pageSizeOptions"
  shows "getPageCount rowCount (clicks rowCount bs (selectPageSize rowCount n p))
           = \<lceil>real rowCount / real_of_int n\<rceil>
       \<and> (if rowCount = 0
          then getPageCount rowCount (clicks rowCount bs (selectPageSize rowCount n p)) = 0
             \<and> pageIndex (clicks rowCount bs (selectPageSize rowCount n p)) = 0
          else 0 \<le> pageIndex (clicks rowCount bs (selectPageSize rowCount n p))
             \<and> pageIndex (clicks rowCount bs (selectPageSize rowCount n p))
                 \<le> \<lceil>real rowCount / real_of_int n\<rceil> - 1)"
proof -
  let ?q = "clicks rowCount bs (selectPageSize rowCount n p)"
  from selectPageSize_ok [OF assms, of rowCount p] pageSizeOptions_pos [OF assms]
  have "pageOk rowCount ?q \<and> tablePageSize ?q = tablePageSize (selectPageSize rowCount n p)"
    by (intro clicks_ok) simp_all
  with selectPageSize_ok [OF assms, of rowCount p]
  have ok: "pageOk rowCount ?q" and sz: "tablePageSize ?q = n"
    by simp_all
  from sz have pc: "getPageCount rowCount ?q = \<lceil>real rowCount / real_of_int n\<rceil>"
    by (simp add: getPageCount_ceiling)
  show ?thesis
  proof (cases "rowCount = 0")
    case True
    with ok pc show ?thesis by (simp add: pageOk_def getPageCount_zero)
  next
    case False
    with ok have "pageInRange rowCount ?q" by (simp add: pageOk_def)
    with pc False show ?thesis by (simp add: pageInRange_def)
  qed
qed

theorem page_index_stays_in_range_witness:
  "20 \<in> set pageSizeOptions
   \<and> getPageCount 45 (clicks 45 [Next, Next, Last, Next, Previous]
        (selectPageSize 45 20 \<lparr>pageIndex = 4, tablePageSize = 10\<rparr>)) = 3
   \<and> pageIndex (clicks 45 [Next, Next, Last, Next, Previous]
        (selectPageSize 45 20 \<lparr>pageIndex = 4, tablePageSize = 10\<rparr>)) = 1"
proof -
  have m: "(20::int) \<in> set pageSizeOptions"
    by (simp add: pageSizeOptions_def)
  have i: "pageIndex (clicks 45 [Next, Next, Last, Next, Previous]
        (selectPageSize 45 20 \<lparr>pageIndex = 4, tablePageSize = 10\<rparr>)) = 1"
    by code_simp
  have c: "\<lceil>real 45 / real_of_int 20\<rceil> = 3"
    by simp
  show ?thesis
    using m i c page_index_stays_in_range [OF m, of 45 "[Next, Next, Last, Next, Previous]"
        "\<lparr>pageIndex = 4, tablePageSize = 10\<rparr>"]
    by simp
qed

text \<open>
  C8 as stated fails on an empty table: with no row that passes the filters the page
  count is 0 and the page index is 0, which is not in \<open>[0, -1]\<close>.
\<close>

theorem page_index_empty_table_out_of_range:
  "10 \<in> set pageSizeOptions
   \<and> getPageCount 0 (selectPageSize 0 10 exPage) = 0
   \<and> pageIndex (selectPageSize 0 10 exPage) = 0
   \<and> \<not> pageInRange 0 (selectPageSize 0 10 exPage)"
  by (simp add: pageSizeOptions_def selectPageSize_def setPageSize_def setPageIndex_def
      tablePageSizeOf_def getPageCount_def pageInRange_def exPage_def)

end
